theory Spec2Isabelle
  imports Complex_Main
begin

section \<open>Sliding-window stationarity analysis (app.py)\<close>

text \<open>
  The program is one Python script built on pandas, statsmodels and the hurst package.
  Its own code is the window loop \<open>analizar_estacionariedad\<close>, the test battery
  \<open>pruebas_estacionariedad\<close>, the guard \<open>calcular_hurst\<close>, the reducer
  \<open>generar_reporte\<close>, the plot request \<open>graficar\<close> and the top-level script.

  Conventions of the embedding:
  \<^item> a Python float is a \<open>real\<close>; a float cell that may be missing (\<open>NaN\<close>, or Python's
    \<open>None\<close> stored in a float column) is a \<open>real option\<close>, \<open>None\<close> being the missing
    value. Rounding, overflow and infinities of binary floating point are not modelled;
  \<^item> a raised exception is the left injection of a sum, so that every path on which the
    script aborts is a value of the model;
  \<^item> the three statistical routines (\<open>adfuller\<close>, \<open>kpss\<close>, \<open>compute_Hc\<close>) are library
    code, not code of this program: they are parameters, collected in the record \<open>lib\<close>;
  \<^item> the pandas operations the script calls are written out on lists, one definition per
    operation, under the name the script uses;
  \<^item> text is a list of bytes, a non-ASCII letter being its UTF-8 encoding.
\<close>

subsection \<open>Values\<close>

type_synonym pyfloat = "real option"

text \<open>A timestamp is a wall-clock second count; a calendar date is a day ordinal.\<close>

type_synonym timestamp = int
type_synonym fecha = int

definition date_of :: "timestamp \<Rightarrow> fecha" where
  "date_of t = t div 86400"

datatype exn =
    ValueError string
  | FloatingPointError string
  | KeyError string
  | IndexError string
  | TypeError string
  | OtherError string string

subsection \<open>The fetched table\<close>

text \<open>
  The table returned by the data provider: one row per bar, holding the index timestamp
  and the \<open>Close\<close> cell. The column \<open>date\<close> does not exist in a fetched table; line 42 of
  the script creates it on the caller's object.
\<close>

record dataframe =
  rows :: "(timestamp \<times> pyfloat) list"
  date_col :: "fecha list option"

definition df_empty :: "dataframe \<Rightarrow> bool" where
  "df_empty data = (rows data = [])"

definition df_index :: "dataframe \<Rightarrow> timestamp list" where
  "df_index data = map fst (rows data)"

definition df_Close :: "dataframe \<Rightarrow> pyfloat list" where
  "df_Close data = map snd (rows data)"

definition df_head :: "dataframe \<Rightarrow> dataframe" where
  "df_head data = data\<lparr>rows := take 5 (rows data), date_col := map_option (take 5) (date_col data)\<rparr>"

text \<open>\<open>data['date'] = data.index.date\<close>: the assignment writes into the object it is given.\<close>

definition set_date :: "dataframe \<Rightarrow> dataframe" where
  "set_date data = data\<lparr>date_col := Some (map date_of (df_index data))\<rparr>"

text \<open>The column as read back after the assignment; \<open>KeyError\<close> when it is absent.\<close>

definition get_date :: "dataframe \<Rightarrow> exn + fecha list" where
  "get_date data = (case date_col data of None \<Rightarrow> Inl (KeyError ''date'') | Some ds \<Rightarrow> Inr ds)"

subsection \<open>pandas and Python operations used by the script\<close>

text \<open>\<open>Series.unique()\<close>: the distinct values, each at its first occurrence.\<close>

definition unique :: "'a list \<Rightarrow> 'a list" where
  "unique xs = rev (remdups (rev xs))"

text \<open>\<open>range(n)\<close> for a Python integer \<open>n\<close>: empty when \<open>n \<le> 0\<close>.\<close>

definition py_range :: "int \<Rightarrow> int list" where
  "py_range n = map int [0..<nat n]"

text \<open>\<open>xs[i:j]\<close>: a negative bound counts from the end, every bound is clipped.\<close>

definition py_slice :: "'a list \<Rightarrow> int \<Rightarrow> int \<Rightarrow> 'a list" where
  "py_slice xs i j =
     (let n = int (length xs);
          a = (if i < 0 then max 0 (n + i) else min i n);
          b = (if j < 0 then max 0 (n + j) else min j n)
      in take (nat (b - a)) (drop (nat a) xs))"

text \<open>\<open>xs[0]\<close> and \<open>xs[-1]\<close> raise on the empty list.\<close>

definition py_first :: "'a list \<Rightarrow> exn + 'a" where
  "py_first xs = (case xs of [] \<Rightarrow> Inl (IndexError ''list index out of range'') | x # _ \<Rightarrow> Inr x)"

definition py_last :: "'a list \<Rightarrow> exn + 'a" where
  "py_last xs = (if xs = [] then Inl (IndexError ''list index out of range'') else Inr (last xs))"

text \<open>\<open>s.isin(values)\<close>: the boolean mask; \<open>xs[mask]\<close>: the entries where the mask holds.\<close>

definition isin :: "'a list \<Rightarrow> 'a list \<Rightarrow> bool list" where
  "isin s vs = map (\<lambda>x. x \<in> set vs) s"

definition boolean_index :: "'a list \<Rightarrow> bool list \<Rightarrow> 'a list" where
  "boolean_index xs msk = map fst (filter snd (zip xs msk))"

text \<open>\<open>s > c\<close> and \<open>s < c\<close> on a float column: a missing cell compares false.\<close>

definition gt_series :: "pyfloat list \<Rightarrow> real \<Rightarrow> bool list" where
  "gt_series s c = map (\<lambda>x. case x of None \<Rightarrow> False | Some v \<Rightarrow> v > c) s"

definition lt_series :: "pyfloat list \<Rightarrow> real \<Rightarrow> bool list" where
  "lt_series s c = map (\<lambda>x. case x of None \<Rightarrow> False | Some v \<Rightarrow> v < c) s"

definition and_series :: "bool list \<Rightarrow> bool list \<Rightarrow> bool list" where
  "and_series a b = map (\<lambda>(x, y). x \<and> y) (zip a b)"

text \<open>\<open>s.dropna()\<close>: the cells that are present.\<close>

fun dropna :: "pyfloat list \<Rightarrow> real list" where
  "dropna [] = []"
| "dropna (None # xs) = dropna xs"
| "dropna (Some x # xs) = x # dropna xs"

text \<open>
  \<open>s.pct_change()\<close>: the first entry is missing, every later one is the ratio to its
  predecessor minus one. A zero predecessor gives no finite number; the script only calls
  it on prices that passed the filter \<open>> 0\<close>.
\<close>

fun pct_change_from :: "real \<Rightarrow> real list \<Rightarrow> pyfloat list" where
  "pct_change_from prev [] = []"
| "pct_change_from prev (x # xs) =
     (if prev = 0 then None else Some (x / prev - 1)) # pct_change_from x xs"

fun pct_change :: "real list \<Rightarrow> pyfloat list" where
  "pct_change [] = []"
| "pct_change (x # xs) = None # pct_change_from x xs"

text \<open>
  \<open>s.std()\<close>: pandas' default is the sample standard deviation (\<open>ddof = 1\<close>); with fewer
  than two observations the result is missing, and nothing is raised.
\<close>

definition pd_mean :: "real list \<Rightarrow> real" where
  "pd_mean xs = sum_list xs / real (length xs)"

definition pd_std :: "real list \<Rightarrow> pyfloat" where
  "pd_std xs =
     (if length xs \<le> 1 then None
      else Some (sqrt (sum_list (map (\<lambda>x. (x - pd_mean xs)\<^sup>2) xs) / real (length xs - 1))))"

text \<open>\<open>mask.mean()\<close> on a boolean column: the share of true entries; missing when empty.\<close>

definition mean_bool :: "bool list \<Rightarrow> pyfloat" where
  "mean_bool bs =
     (if bs = [] then None else Some (real (length (filter id bs)) / real (length bs)))"

definition times100 :: "pyfloat \<Rightarrow> pyfloat" where
  "times100 m = map_option (\<lambda>v. v * 100) m"

subsection \<open>The statistical routines\<close>

text \<open>
  \<open>adfuller(x)\<close> returns a tuple whose entries 0 and 1 are the statistic and the p-value;
  \<open>kpss(x, regression, nlags)\<close> likewise; \<open>compute_Hc(x, kind, simplified)\<close> returns
  \<open>(H, c, data)\<close>. Each may raise.
\<close>

record lib =
  adfuller :: "real list \<Rightarrow> exn + (pyfloat \<times> pyfloat)"
  kpss :: "real list \<Rightarrow> string \<Rightarrow> string \<Rightarrow> exn + (pyfloat \<times> pyfloat)"
  compute_Hc :: "real list \<Rightarrow> string \<Rightarrow> bool \<Rightarrow> exn + (pyfloat \<times> real \<times> real list list)"

text \<open>
  An entry of the dictionary built by \<open>pruebas_estacionariedad\<close>: either the keys
  \<open>p-value\<close> and the statistic, or a \<open>None\<close> p-value with the key \<open>error\<close>.
\<close>

datatype entrada =
    Entrada pyfloat pyfloat
  | Fallo string

fun p_value :: "entrada \<Rightarrow> pyfloat" where
  "p_value (Entrada p s) = p"
| "p_value (Fallo msg) = None"

fun estadistico :: "entrada \<Rightarrow> pyfloat option" where
  "estadistico (Entrada p s) = Some s"
| "estadistico (Fallo msg) = None"

fun error_de :: "entrada \<Rightarrow> string option" where
  "error_de (Entrada p s) = None"
| "error_de (Fallo msg) = Some msg"

record resultados_pruebas =
  ADF :: entrada
  KPSS :: entrada

text \<open>Lines 16 to 27. Only \<open>ValueError\<close> from \<open>kpss\<close> is caught; \<open>adfuller\<close> is unguarded.\<close>

definition pruebas_estacionariedad :: "lib \<Rightarrow> real list \<Rightarrow> exn + resultados_pruebas" where
  "pruebas_estacionariedad L data =
     (case adfuller L data of
        Inl e \<Rightarrow> Inl e
      | Inr adf_result \<Rightarrow>
          (case kpss L data ''c'' ''auto'' of
             Inr kpss_result \<Rightarrow>
               Inr \<lparr>ADF = Entrada (snd adf_result) (fst adf_result),
                    KPSS = Entrada (snd kpss_result) (fst kpss_result)\<rparr>
           | Inl (ValueError msg) \<Rightarrow>
               Inr \<lparr>ADF = Entrada (snd adf_result) (fst adf_result), KPSS = Fallo msg\<rparr>
           | Inl e \<Rightarrow> Inl e))"

text \<open>Lines 30 to 37.\<close>

definition calcular_hurst :: "lib \<Rightarrow> real list \<Rightarrow> exn + pyfloat" where
  "calcular_hurst L data =
     (if length data < 100 then Inr None
      else (case compute_Hc L data ''price'' True of
              Inr (H, _, _) \<Rightarrow> Inr H
            | Inl (FloatingPointError msg) \<Rightarrow> Inr None
            | Inl e \<Rightarrow> Inl e))"

subsection \<open>The window loop\<close>

record fila =
  Inicio_Ventana :: fecha
  Fin_Ventana :: fecha
  ADF_p_value :: pyfloat
  KPSS_p_value :: pyfloat
  Hurst_Exponent :: pyfloat
  Volatilidad :: pyfloat

text \<open>Line 43.\<close>

definition fechas_unicas :: "fecha list \<Rightarrow> fecha list" where
  "fechas_unicas dates = sort (unique dates)"

text \<open>Lines 44 and 45: the windows the loop visits, in the order it visits them.\<close>

definition ventanas :: "fecha list \<Rightarrow> int \<Rightarrow> fecha list list" where
  "ventanas fs ventana_dias =
     map (\<lambda>i. py_slice fs i (i + ventana_dias)) (py_range (int (length fs) - ventana_dias + 1))"

text \<open>Lines 46 and 47: the \<open>Close\<close> cells of the window's rows, then the filter.\<close>

definition subset_Close :: "dataframe \<Rightarrow> fecha list \<Rightarrow> fecha list \<Rightarrow> pyfloat list" where
  "subset_Close data dates ventana = boolean_index (df_Close data) (isin dates ventana)"

definition precios_de :: "dataframe \<Rightarrow> fecha list \<Rightarrow> fecha list \<Rightarrow> real list" where
  "precios_de data dates ventana =
     (let c = subset_Close data dates ventana in dropna (boolean_index c (gt_series c 0)))"

text \<open>Line 50.\<close>

definition retornos_de :: "dataframe \<Rightarrow> fecha list \<Rightarrow> fecha list \<Rightarrow> real list" where
  "retornos_de data dates ventana = dropna (pct_change (precios_de data dates ventana))"

text \<open>Lines 46 to 60, one pass of the loop body: \<open>Inr None\<close> is \<open>continue\<close>.\<close>

definition paso :: "lib \<Rightarrow> dataframe \<Rightarrow> fecha list \<Rightarrow> fecha list \<Rightarrow> exn + fila option" where
  "paso L data dates ventana =
     (let precios = precios_de data dates ventana in
      if length precios < 2 then Inr None
      else
        let retornos = dropna (pct_change precios) in
        case pruebas_estacionariedad L retornos of
          Inl e \<Rightarrow> Inl e
        | Inr estacionariedad \<Rightarrow>
            (case calcular_hurst L retornos of
               Inl e \<Rightarrow> Inl e
             | Inr hurst \<Rightarrow>
                 (case py_first ventana of
                    Inl e \<Rightarrow> Inl e
                  | Inr inicio \<Rightarrow>
                      (case py_last ventana of
                         Inl e \<Rightarrow> Inl e
                       | Inr fin \<Rightarrow>
                           Inr (Some \<lparr>Inicio_Ventana = inicio,
                                      Fin_Ventana = fin,
                                      ADF_p_value = p_value (ADF estacionariedad),
                                      KPSS_p_value = p_value (KPSS estacionariedad),
                                      Hurst_Exponent = hurst,
                                      Volatilidad = pd_std retornos\<rparr>)))))"

text \<open>The \<open>for\<close> loop with its accumulator \<open>resultados\<close>; an exception ends it.\<close>

fun bucle :: "lib \<Rightarrow> dataframe \<Rightarrow> fecha list \<Rightarrow> fecha list list \<Rightarrow> fila list \<Rightarrow> exn + fila list" where
  "bucle L data dates [] resultados = Inr resultados"
| "bucle L data dates (ventana # vs) resultados =
     (case paso L data dates ventana of
        Inl e \<Rightarrow> Inl e
      | Inr None \<Rightarrow> bucle L data dates vs resultados
      | Inr (Some r) \<Rightarrow> bucle L data dates vs (resultados @ [r]))"

text \<open>
  The same loop with the windows it enters written down beside its outcome: a window is
  entered when the loop body starts on it, so the window on which an exception is raised
  is the last one entered.
\<close>

fun bucle_visitas ::
  "lib \<Rightarrow> dataframe \<Rightarrow> fecha list \<Rightarrow> fecha list list \<Rightarrow> fila list
     \<Rightarrow> fecha list list \<times> (exn + fila list)" where
  "bucle_visitas L data dates [] resultados = ([], Inr resultados)"
| "bucle_visitas L data dates (ventana # vs) resultados =
     (case paso L data dates ventana of
        Inl e \<Rightarrow> ([ventana], Inl e)
      | Inr None \<Rightarrow>
          (case bucle_visitas L data dates vs resultados of
             (visitadas, res) \<Rightarrow> (ventana # visitadas, res))
      | Inr (Some r) \<Rightarrow>
          (case bucle_visitas L data dates vs (resultados @ [r]) of
             (visitadas, res) \<Rightarrow> (ventana # visitadas, res)))"

text \<open>
  \<open>pd.DataFrame(resultados)\<close> on a list of dictionaries that all have the same six keys:
  the columns are those keys, and the table built from the empty list has no column.
\<close>

type_synonym tabla = "fila list"

definition pd_DataFrame :: "fila list \<Rightarrow> tabla" where
  "pd_DataFrame resultados = resultados"

text \<open>
  Lines 40 to 61. The function returns its table; the caller's table, which line 42
  modifies, is returned beside it.
\<close>

definition analizar_estacionariedad :: "lib \<Rightarrow> dataframe \<Rightarrow> int \<Rightarrow> dataframe \<times> (exn + tabla)" where
  "analizar_estacionariedad L data0 ventana_dias =
     (let data = set_date data0 in
      case get_date data of
        Inl e \<Rightarrow> (data, Inl e)
      | Inr dates \<Rightarrow>
          (case bucle L data dates (ventanas (fechas_unicas dates) ventana_dias) [] of
             Inl e \<Rightarrow> (data, Inl e)
           | Inr resultados \<Rightarrow> (data, Inr (pd_DataFrame resultados))))"

subsection \<open>The result table\<close>

definition tabla_empty :: "tabla \<Rightarrow> bool" where
  "tabla_empty df = (df = [])"

definition columnas :: "tabla \<Rightarrow> string list" where
  "columnas df =
     (if df = [] then []
      else [''Inicio Ventana'', ''Fin Ventana'', ''ADF p-value'', ''KPSS p-value'',
            ''Hurst Exponent'', ''Volatilidad''])"

datatype columna =
    Fechas "fecha list"
  | Flotantes "pyfloat list"

text \<open>\<open>df[c]\<close>: \<open>KeyError\<close> when the table has no column \<open>c\<close>.\<close>

definition getitem :: "tabla \<Rightarrow> string \<Rightarrow> exn + columna" where
  "getitem df c =
     (if c \<notin> set (columnas df) then Inl (KeyError c)
      else if c = ''Inicio Ventana'' then Inr (Fechas (map Inicio_Ventana df))
      else if c = ''Fin Ventana'' then Inr (Fechas (map Fin_Ventana df))
      else if c = ''ADF p-value'' then Inr (Flotantes (map ADF_p_value df))
      else if c = ''KPSS p-value'' then Inr (Flotantes (map KPSS_p_value df))
      else if c = ''Hurst Exponent'' then Inr (Flotantes (map Hurst_Exponent df))
      else Inr (Flotantes (map Volatilidad df)))"

text \<open>Comparing a column with a float; a column of dates does not compare with one.\<close>

fun col_lt :: "columna \<Rightarrow> real \<Rightarrow> exn + bool list" where
  "col_lt (Flotantes s) c = Inr (lt_series s c)"
| "col_lt (Fechas s) c = Inl (TypeError ''<'')"

fun col_gt :: "columna \<Rightarrow> real \<Rightarrow> exn + bool list" where
  "col_gt (Flotantes s) c = Inr (gt_series s c)"
| "col_gt (Fechas s) c = Inl (TypeError ''>'')"

text \<open>Sequencing of two steps that may raise.\<close>

definition luego :: "exn + 'a \<Rightarrow> ('a \<Rightarrow> exn + 'b) \<Rightarrow> exn + 'b" where
  "luego m f = (case m of Inl e \<Rightarrow> Inl e | Inr x \<Rightarrow> f x)"

subsection \<open>The report\<close>

definition msg_insuficiente :: string where
  "msg_insuficiente =
     ''No hay suficiente informaci'' @ [CHR 0xC3, CHR 0xB3] @ ''n para realizar el an''
       @ [CHR 0xC3, CHR 0xA1] @ ''lisis.''"

text \<open>
  The function returns text: either the fixed message, or the fixed template with the
  three percentages substituted. The template's rendering of a float to two decimals is
  presentation and is not modelled: the second constructor holds the three numbers in
  the order the template prints them (ADF, KPSS, Hurst).
\<close>

datatype reporte =
    Mensaje string
  | Resumen pyfloat pyfloat pyfloat

text \<open>Lines 64 to 75.\<close>

definition generar_reporte :: "tabla \<Rightarrow> exn + reporte" where
  "generar_reporte df =
     (if tabla_empty df then Inr (Mensaje msg_insuficiente)
      else
        luego (getitem df ''ADF p-value'') (\<lambda>adf.
        luego (col_lt adf 0.05) (\<lambda>m_adf.
        let estacionario_adf = times100 (mean_bool m_adf) in
        luego (getitem df ''KPSS p-value'') (\<lambda>kp.
        luego (col_gt kp 0.05) (\<lambda>m_kpss.
        let estacionario_kpss = times100 (mean_bool m_kpss) in
        luego (getitem df ''Hurst Exponent'') (\<lambda>h1.
        luego (col_gt h1 0.4) (\<lambda>m_lo.
        luego (getitem df ''Hurst Exponent'') (\<lambda>h2.
        luego (col_lt h2 0.6) (\<lambda>m_hi.
        let hurst_estacionario = times100 (mean_bool (and_series m_lo m_hi)) in
        Inr (Resumen estacionario_adf estacionario_kpss hurst_estacionario))))))))))"

subsection \<open>The plot and the top-level script\<close>

record linea =
  linea_x :: columna
  linea_y :: columna
  linea_label :: string

record figura =
  lineas :: "linea list"
  titulo :: string
  umbral :: real
  xlabel :: string
  ylabel :: string

datatype salida =
    St_title string
  | St_write string
  | St_write_datos dataframe
  | St_write_tabla tabla
  | St_write_reporte reporte
  | St_error string
  | St_success string
  | St_pyplot figura

text \<open>
  Lines 78 to 87. The arguments of each \<open>ax.plot\<close> call are evaluated left to right, so
  the first column read is \<open>'Inicio Ventana'\<close>. The value is what the function hands to
  the presentation layer.
\<close>

definition graficar :: "tabla \<Rightarrow> exn + salida list" where
  "graficar df =
     luego (getitem df ''Inicio Ventana'') (\<lambda>x1.
     luego (getitem df ''ADF p-value'') (\<lambda>y1.
     luego (getitem df ''Inicio Ventana'') (\<lambda>x2.
     luego (getitem df ''KPSS p-value'') (\<lambda>y2.
     Inr [St_pyplot
            \<lparr>lineas = [\<lparr>linea_x = x1, linea_y = y1, linea_label = ''ADF p-value''\<rparr>,
                       \<lparr>linea_x = x2, linea_y = y2, linea_label = ''KPSS p-value''\<rparr>],
             titulo = ''Evoluci'' @ [CHR 0xC3, CHR 0xB3] @ ''n de las pruebas de estacionariedad'',
             umbral = 0.05,
             xlabel = ''Fecha'',
             ylabel = ''p-value''\<rparr>]))))"

definition encabezado :: "salida list" where
  "encabezado =
     [St_title (''An'' @ [CHR 0xC3, CHR 0xA1] @ ''lisis de Estacionariedad del Oro''),
      St_write (''Este an'' @ [CHR 0xC3, CHR 0xA1] @ ''lisis eval'' @ [CHR 0xC3, CHR 0xBA]
                @ ''a la probabilidad de que el oro se comporte de forma estacionaria en el pr''
                @ [CHR 0xC3, CHR 0xB3] @ ''ximo d'' @ [CHR 0xC3, CHR 0xAD] @ ''a.''),
      St_write ''### Descargando datos...'']"

text \<open>
  Lines 90 to 113, as a function of the table the download returned: what reaches the
  page, and the exception that ends the script, if any.
\<close>

definition script :: "lib \<Rightarrow> dataframe \<Rightarrow> salida list \<times> exn option" where
  "script L datos =
     (if df_empty datos then
        (encabezado @
           [St_error (''No se pudieron descargar los datos del oro. Intenta nuevamente m''
                      @ [CHR 0xC3, CHR 0xA1] @ ''s tarde.'')], None)
      else
        let out1 = encabezado @
              [St_success ''Datos descargados exitosamente.'',
               St_write_datos (df_head datos),
               St_write ''### Analizando datos...'']
        in case snd (analizar_estacionariedad L datos 2) of
             Inl e \<Rightarrow> (out1, Some e)
           | Inr resultados \<Rightarrow>
               let out2 = out1 @ [St_write_tabla resultados]
               in case generar_reporte resultados of
                    Inl e \<Rightarrow> (out2, Some e)
                  | Inr reporte \<Rightarrow>
                      let out3 = out2 @ [St_write_reporte reporte,
                                         St_write (''### Visualizaci'' @ [CHR 0xC3, CHR 0xB3]
                                                   @ ''n de resultados'')]
                      in case graficar resultados of
                           Inl e \<Rightarrow> (out3, Some e)
                         | Inr plots \<Rightarrow> (out3 @ plots, None))"

subsection \<open>Worked inputs\<close>

text \<open>
  A library instance for the worked examples. Its level-stationarity test rejects a
  constant series with \<open>ValueError\<close> and its exponent estimator rejects a series
  containing a zero with \<open>FloatingPointError\<close>; the unit-root test always answers.
\<close>

definition lib_ej :: lib where
  "lib_ej =
     \<lparr>adfuller = (\<lambda>x. Inr (Some (- 3), Some (1 / 100))),
      kpss = (\<lambda>x regression nlags.
                if length (remdups x) \<le> 1
                then Inl (ValueError ''cannot convert float NaN to integer'')
                else Inr (Some (1 / 10), Some (1 / 10))),
      compute_Hc = (\<lambda>x kind simplified.
                if 0 \<in> set x
                then Inl (FloatingPointError ''divide by zero encountered in log10'')
                else Inr (Some (1 / 2), 1, []))\<rparr>"

text \<open>The same library with a unit-root test that rejects a constant series.\<close>

definition lib_adf_estricto :: lib where
  "lib_adf_estricto =
     lib_ej\<lparr>adfuller := (\<lambda>x. if length (remdups x) \<le> 1
                              then Inl (ValueError ''Invalid input, x is constant'')
                              else Inr (Some (- 3), Some (1 / 100)))\<rparr>"

text \<open>
  The same library with a level-stationarity test that fails with an exception of another
  class than \<open>ValueError\<close>.
\<close>

definition lib_kpss_desborda :: lib where
  "lib_kpss_desborda =
     lib_ej\<lparr>kpss := (\<lambda>x regression nlags.
                        Inl (OtherError ''OverflowError''
                               ''cannot convert float infinity to integer''))\<rparr>"

text \<open>One calendar date, two bars.\<close>

definition ej_un_dia :: dataframe where
  "ej_un_dia = \<lparr>rows = [(0, Some 10), (900, Some 11)], date_col = None\<rparr>"

text \<open>One calendar date, three bars whose two returns are equal.\<close>

definition ej_constante :: dataframe where
  "ej_constante = \<lparr>rows = [(0, Some 10), (900, Some 20), (1800, Some 40)], date_col = None\<rparr>"

text \<open>
  Three calendar dates: one valid bar on the first, three on the second, and on the
  third one valid bar beside a missing and a negative one.
\<close>

definition ej_tres_dias :: dataframe where
  "ej_tres_dias =
     \<lparr>rows = [(0, Some 10),
              (86400, Some 10), (87300, Some 20), (88200, Some 10),
              (172800, Some 5), (173700, None), (174600, Some (- 1))],
      date_col = None\<rparr>"

text \<open>Two calendar dates: two bars on the first, three on the second.\<close>

definition ej_dos_dias :: dataframe where
  "ej_dos_dias =
     \<lparr>rows = [(0, Some 10), (900, Some 11),
              (86400, Some 10), (87300, Some 20), (88200, Some 10)],
      date_col = None\<rparr>"

text \<open>Ten result rows, six of them with a unit-root p-value below the threshold.\<close>

definition fila_baja :: fila where
  "fila_baja =
     \<lparr>Inicio_Ventana = 0, Fin_Ventana = 1, ADF_p_value = Some (1 / 100),
      KPSS_p_value = Some (1 / 10), Hurst_Exponent = Some (1 / 2), Volatilidad = Some 1\<rparr>"

definition fila_alta :: fila where
  "fila_alta =
     \<lparr>Inicio_Ventana = 0, Fin_Ventana = 1, ADF_p_value = Some (1 / 2),
      KPSS_p_value = None, Hurst_Exponent = None, Volatilidad = None\<rparr>"

definition ej_tabla :: tabla where
  "ej_tabla = replicate 6 fila_baja @ replicate 4 fila_alta"

section \<open>Facts about the operations\<close>

lemma set_unique: "set (unique xs) = set xs"
  by (simp add: unique_def)

lemma distinct_unique: "distinct (unique xs)"
  by (simp add: unique_def)

lemma length_unique: "length (unique xs) = card (set xs)"
  using length_remdups_card_conv [of "rev xs"] by (simp add: unique_def)

lemma length_fechas_unicas: "length (fechas_unicas ds) = card (set ds)"
  by (simp add: fechas_unicas_def length_unique)

lemma set_fechas_unicas: "set (fechas_unicas ds) = set ds"
  by (simp add: fechas_unicas_def set_unique)

lemma distinct_fechas_unicas: "distinct (fechas_unicas ds)"
  by (simp add: fechas_unicas_def distinct_unique)

lemma sorted_fechas_unicas: "sorted (fechas_unicas ds)"
  by (simp add: fechas_unicas_def)

lemma length_py_range: "length (py_range n) = nat n"
  by (simp add: py_range_def)

lemma nth_py_range: "i < nat n \<Longrightarrow> py_range n ! i = int i"
  by (simp add: py_range_def)

lemma length_ventanas: "length (ventanas fs w) = nat (int (length fs) - w + 1)"
  by (simp add: ventanas_def length_py_range)

lemma py_slice_inside:
  "0 \<le> i \<Longrightarrow> 0 \<le> k \<Longrightarrow> i + k \<le> int (length xs) \<Longrightarrow>
     py_slice xs i (i + k) = take (nat k) (drop (nat i) xs)"
  by (simp add: py_slice_def Let_def min_def)

lemma nth_ventanas:
  assumes "1 \<le> w" and "i < length (ventanas fs w)"
  shows "ventanas fs w ! i = take (nat w) (drop i fs)"
proof -
  from assms(2) have i: "i < nat (int (length fs) - w + 1)"
    by (simp add: length_ventanas)
  then have "ventanas fs w ! i = py_slice fs (int i) (int i + w)"
    by (simp add: ventanas_def length_py_range nth_py_range)
  also have "\<dots> = take (nat w) (drop (nat (int i)) fs)"
    using assms(1) i by (intro py_slice_inside) auto
  finally show ?thesis by simp
qed

lemma length_nth_ventanas:
  assumes "1 \<le> w" and "i < length (ventanas fs w)"
  shows "length (ventanas fs w ! i) = nat w"
proof -
  from assms(2) have "i < nat (int (length fs) - w + 1)"
    by (simp add: length_ventanas)
  with assms(1) have "nat w \<le> length fs - i" by linarith
  then show ?thesis using nth_ventanas [OF assms] by simp
qed

lemma boolean_index_map: "boolean_index xs (map P xs) = filter P xs"
  by (induction xs) (simp_all add: boolean_index_def)

lemma boolean_index_isin_Nil: "boolean_index xs (isin ds []) = []"
proof -
  have "\<not> snd p" if "p \<in> set (zip xs (map (\<lambda>x. False) ds))" for p
  proof -
    have "snd p \<in> set (map (\<lambda>x. False) ds)"
      using that set_zip_rightD [of "fst p" "snd p" xs "map (\<lambda>x. False) ds"] by simp
    then show ?thesis by auto
  qed
  then show ?thesis by (simp add: boolean_index_def isin_def filter_empty_conv)
qed

lemma map_Some_dropna_filter:
  "map Some (dropna (filter (\<lambda>x. case x of None \<Rightarrow> False | Some v \<Rightarrow> c < v) xs)) =
     filter (\<lambda>x. case x of None \<Rightarrow> False | Some v \<Rightarrow> c < v) xs"
proof (induction xs)
  case Nil
  show ?case by simp
next
  case (Cons x xs)
  then show ?case by (cases x) simp_all
qed

lemma precios_de_filter:
  "map Some (precios_de data dates v) =
     filter (\<lambda>x. case x of None \<Rightarrow> False | Some p \<Rightarrow> 0 < p) (subset_Close data dates v)"
  by (simp add: precios_de_def Let_def gt_series_def boolean_index_map map_Some_dropna_filter)

lemma precios_de_pos: "p \<in> set (precios_de data dates v) \<Longrightarrow> 0 < p"
proof -
  assume "p \<in> set (precios_de data dates v)"
  then have "Some p \<in> set (map Some (precios_de data dates v))" by simp
  then show "0 < p" unfolding precios_de_filter by simp
qed

lemma precios_de_Nil: "precios_de data dates [] = []"
  by (simp add: precios_de_def subset_Close_def boolean_index_isin_Nil gt_series_def boolean_index_map)

lemma paso_skip: "length (precios_de data dates v) < 2 \<Longrightarrow> paso L data dates v = Inr None"
  by (simp add: paso_def Let_def)

lemma paso_None: "paso L data dates v = Inr None \<Longrightarrow> length (precios_de data dates v) < 2"
  by (auto simp: paso_def Let_def split: if_splits sum.splits)

lemma paso_Some:
  assumes "paso L data dates v = Inr (Some r)"
  shows "2 \<le> length (precios_de data dates v)"
    and "Volatilidad r = pd_std (retornos_de data dates v)"
    and "py_first v = Inr (Inicio_Ventana r)"
    and "py_last v = Inr (Fin_Ventana r)"
  using assms
  by (auto simp: paso_def Let_def retornos_de_def split: if_splits sum.splits)

lemma bucle_rows:
  "bucle L data dates vs acc = Inr t \<Longrightarrow>
     \<exists>rs. t = acc @ rs \<and>
          map Volatilidad rs =
            map (\<lambda>v. pd_std (retornos_de data dates v))
              (filter (\<lambda>v. 2 \<le> length (precios_de data dates v)) vs)"
proof (induction vs arbitrary: acc)
  case Nil
  then show ?case by simp
next
  case (Cons v vs)
  show ?case
  proof (cases "paso L data dates v")
    case (Inl e)
    with Cons.prems show ?thesis by simp
  next
    case (Inr opt)
    show ?thesis
    proof (cases opt)
      case None
      with Inr Cons.prems have "bucle L data dates vs acc = Inr t" by simp
      from Cons.IH [OF this] obtain rs where
        "t = acc @ rs"
        "map Volatilidad rs =
           map (\<lambda>v. pd_std (retornos_de data dates v))
             (filter (\<lambda>v. 2 \<le> length (precios_de data dates v)) vs)"
        by blast
      moreover from Inr None have "\<not> 2 \<le> length (precios_de data dates v)"
        using paso_None [of L data dates v] by simp
      ultimately show ?thesis by simp
    next
      case (Some r)
      with Inr Cons.prems have "bucle L data dates vs (acc @ [r]) = Inr t" by simp
      from Cons.IH [OF this] obtain rs where
        "t = (acc @ [r]) @ rs"
        "map Volatilidad rs =
           map (\<lambda>v. pd_std (retornos_de data dates v))
             (filter (\<lambda>v. 2 \<le> length (precios_de data dates v)) vs)"
        by blast
      moreover from Inr Some have "2 \<le> length (precios_de data dates v)"
        "Volatilidad r = pd_std (retornos_de data dates v)"
        using paso_Some [of L data dates v r] by simp_all
      ultimately have "t = acc @ (r # rs) \<and>
          map Volatilidad (r # rs) =
            map (\<lambda>v. pd_std (retornos_de data dates v))
              (filter (\<lambda>v. 2 \<le> length (precios_de data dates v)) (v # vs))"
        by simp
      then show ?thesis by blast
    qed
  qed
qed

lemma get_date_set_date: "get_date (set_date data) = Inr (map date_of (df_index data))"
  by (simp add: get_date_def set_date_def)

lemma analizar_unfold:
  "analizar_estacionariedad L data w =
     (set_date data,
      map_sum (\<lambda>e. e) pd_DataFrame
        (bucle L (set_date data) (map date_of (df_index data))
           (ventanas (fechas_unicas (map date_of (df_index data))) w) []))"
  by (simp add: analizar_estacionariedad_def Let_def get_date_set_date split: sum.splits)

lemma analizar_rows:
  assumes "snd (analizar_estacionariedad L data w) = Inr t"
  shows "map Volatilidad t =
           map (\<lambda>v. pd_std (retornos_de (set_date data) (map date_of (df_index data)) v))
             (filter (\<lambda>v. 2 \<le> length (precios_de (set_date data) (map date_of (df_index data)) v))
                (ventanas (fechas_unicas (map date_of (df_index data))) w))"
proof -
  from assms have "bucle L (set_date data) (map date_of (df_index data))
           (ventanas (fechas_unicas (map date_of (df_index data))) w) [] = Inr t"
    by (cases "bucle L (set_date data) (map date_of (df_index data))
           (ventanas (fechas_unicas (map date_of (df_index data))) w) []")
       (simp_all add: analizar_unfold pd_DataFrame_def)
  from bucle_rows [OF this] show ?thesis by simp
qed

lemma ventanas_short: "int (length fs) < w \<Longrightarrow> ventanas fs w = []"
  by (simp add: ventanas_def py_range_def)

lemma dates_ej_un_dia: "map date_of (df_index ej_un_dia) = [0, 0]"
  by (simp add: ej_un_dia_def df_index_def date_of_def)

lemma dates_ej_tres_dias: "map date_of (df_index ej_tres_dias) = [0, 1, 1, 1, 2, 2, 2]"
  by (simp add: ej_tres_dias_def df_index_def date_of_def)

lemma fechas_ej_un_dia: "fechas_unicas [0, 0] = [0]"
  by (simp add: fechas_unicas_def unique_def)

lemma fechas_ej_tres_dias: "fechas_unicas [0, 1, 1, 1, 2, 2, 2] = [0, 1, 2]"
  by (simp add: fechas_unicas_def unique_def)

section \<open>The claims\<close>

lemma ventanas_tres_1: "ventanas [0, 1, 2] 1 = [[0], [1], [2]]"
  by (simp add: ventanas_def py_range_def py_slice_def upt_rec)

lemma precios_tres_0:
  "precios_de (set_date ej_tres_dias) [0, 1, 1, 1, 2, 2, 2] [0] = [10]"
  by (simp add: precios_de_def subset_Close_def df_Close_def set_date_def ej_tres_dias_def
      boolean_index_def isin_def gt_series_def)

lemma precios_tres_1:
  "precios_de (set_date ej_tres_dias) [0, 1, 1, 1, 2, 2, 2] [1] = [10, 20, 10]"
  by (simp add: precios_de_def subset_Close_def df_Close_def set_date_def ej_tres_dias_def
      boolean_index_def isin_def gt_series_def)

lemma precios_tres_2:
  "precios_de (set_date ej_tres_dias) [0, 1, 1, 1, 2, 2, 2] [2] = [5]"
  by (simp add: precios_de_def subset_Close_def df_Close_def set_date_def ej_tres_dias_def
      boolean_index_def isin_def gt_series_def)

lemma paso_tres_1:
  "paso lib_ej (set_date ej_tres_dias) [0, 1, 1, 1, 2, 2, 2] [1] =
     Inr (Some \<lparr>Inicio_Ventana = 1, Fin_Ventana = 1, ADF_p_value = Some (1 / 100),
                KPSS_p_value = Some (1 / 10), Hurst_Exponent = None,
                Volatilidad = pd_std [1, - 1 / 2]\<rparr>)"
  by (simp add: paso_def precios_tres_1 pruebas_estacionariedad_def lib_ej_def
      calcular_hurst_def py_first_def py_last_def)

lemma analizar_tres_1:
  "snd (analizar_estacionariedad lib_ej ej_tres_dias 1) =
     Inr [\<lparr>Inicio_Ventana = 1, Fin_Ventana = 1, ADF_p_value = Some (1 / 100),
                KPSS_p_value = Some (1 / 10), Hurst_Exponent = None,
                Volatilidad = pd_std [1, - 1 / 2]\<rparr>]"
  by (simp add: analizar_unfold dates_ej_tres_dias fechas_ej_tres_dias ventanas_tres_1
      paso_skip precios_tres_0 precios_tres_2 paso_tres_1 pd_DataFrame_def)

lemma bucle_length:
  assumes "bucle L data dates vs [] = Inr t"
  shows "length t = length (filter (\<lambda>v. 2 \<le> length (precios_de data dates v)) vs)"
proof -
  from bucle_rows [OF assms] have
    "map Volatilidad t =
       map (\<lambda>v. pd_std (retornos_de data dates v))
         (filter (\<lambda>v. 2 \<le> length (precios_de data dates v)) vs)"
    by simp
  from arg_cong [OF this, of length] show ?thesis by simp
qed

lemma analizar_Inr:
  assumes "snd (analizar_estacionariedad L data w) = Inr t"
  shows "bucle L (set_date data) (map date_of (df_index data))
           (ventanas (fechas_unicas (map date_of (df_index data))) w) [] = Inr t"
  using assms
  by (cases "bucle L (set_date data) (map date_of (df_index data))
           (ventanas (fechas_unicas (map date_of (df_index data))) w) []")
     (simp_all add: analizar_unfold pd_DataFrame_def)

text \<open>
  Claim C2. In every window the evaluator keeps exactly the \<open>Close\<close> cells that are
  present and strictly positive. When fewer than two remain, the pass through the loop
  body is a \<open>continue\<close>: no row, no exception. Hence a returned table has one row per
  window with at least two valid prices, and strictly fewer rows than windows as soon as
  one window has fewer than two.
\<close>

theorem C2_short_windows_skipped:
  "let data' = set_date data;
       dates = map date_of (df_index data);
       vs = ventanas (fechas_unicas dates) w in
   (\<forall>v. map Some (precios_de data' dates v) =
          filter (\<lambda>c. case c of None \<Rightarrow> False | Some p \<Rightarrow> 0 < p) (subset_Close data' dates v)) \<and>
   (\<forall>v. length (precios_de data' dates v) < 2 \<longrightarrow> paso L data' dates v = Inr None) \<and>
   (\<forall>t. snd (analizar_estacionariedad L data w) = Inr t \<longrightarrow>
        length t = length (filter (\<lambda>v. 2 \<le> length (precios_de data' dates v)) vs) \<and>
        ((\<exists>v \<in> set vs. length (precios_de data' dates v) < 2) \<longrightarrow> length t < length vs))"
proof -
  define data' where "data' = set_date data"
  define dates where "dates = map date_of (df_index data)"
  define vs where "vs = ventanas (fechas_unicas dates) w"
  have rows: "length t = length (filter (\<lambda>v. 2 \<le> length (precios_de data' dates v)) vs)"
    if "snd (analizar_estacionariedad L data w) = Inr t" for t
    using bucle_length [OF analizar_Inr [OF that]]
    by (simp add: data'_def dates_def vs_def)
  have fewer: "length t < length vs"
    if "snd (analizar_estacionariedad L data w) = Inr t"
      and "\<exists>v \<in> set vs. length (precios_de data' dates v) < 2" for t
  proof -
    from that(2) obtain v where "v \<in> set vs" "\<not> 2 \<le> length (precios_de data' dates v)"
      by auto
    then have "length (filter (\<lambda>v. 2 \<le> length (precios_de data' dates v)) vs) < length vs"
      by (rule length_filter_less)
    with rows [OF that(1)] show ?thesis by simp
  qed
  show ?thesis
    unfolding Let_def data'_def [symmetric] dates_def [symmetric] vs_def [symmetric]
    using rows fewer by (simp add: precios_de_filter paso_skip)
qed

theorem C2_short_windows_skipped_witness:
  "length (precios_de (set_date ej_tres_dias) (map date_of (df_index ej_tres_dias)) [0]) < 2 \<and>
   paso lib_ej (set_date ej_tres_dias) (map date_of (df_index ej_tres_dias)) [0] = Inr None \<and>
   [0] \<in> set (ventanas (fechas_unicas (map date_of (df_index ej_tres_dias))) 1) \<and>
   (\<exists>t. snd (analizar_estacionariedad lib_ej ej_tres_dias 1) = Inr t \<and> length t = 1 \<and>
        length t < length (ventanas (fechas_unicas (map date_of (df_index ej_tres_dias))) 1))"
proof -
  note c2 = C2_short_windows_skipped [where data = ej_tres_dias and w = 1 and L = lib_ej,
      unfolded Let_def dates_ej_tres_dias fechas_ej_tres_dias ventanas_tres_1]
  have short: "length (precios_de (set_date ej_tres_dias) [0, 1, 1, 1, 2, 2, 2] [0]) < 2"
    by (simp add: precios_tres_0)
  from c2 short have skip: "paso lib_ej (set_date ej_tres_dias) [0, 1, 1, 1, 2, 2, 2] [0] = Inr None"
    by blast
  from c2 have third:
    "\<forall>t. snd (analizar_estacionariedad lib_ej ej_tres_dias 1) = Inr t \<longrightarrow>
       length t = length (filter (\<lambda>v. 2 \<le> length (precios_de (set_date ej_tres_dias)
                                  [0, 1, 1, 1, 2, 2, 2] v)) [[0], [1], [2]]) \<and>
       ((\<exists>v \<in> set [[0], [1], [2]].
           length (precios_de (set_date ej_tres_dias) [0, 1, 1, 1, 2, 2, 2] v) < 2) \<longrightarrow>
        length t < length [[0], [1], [2::int]])"
    by blast
  have ex: "\<exists>v \<in> set [[0], [1], [2]].
      length (precios_de (set_date ej_tres_dias) [0, 1, 1, 1, 2, 2, 2] v) < 2"
    using short by simp
  from third [rule_format, OF analizar_tres_1] ex
  have "length [\<lparr>Inicio_Ventana = 1, Fin_Ventana = 1, ADF_p_value = Some (1 / 100),
                KPSS_p_value = Some (1 / 10), Hurst_Exponent = None,
                Volatilidad = pd_std [1, - 1 / 2]\<rparr>] < length [[0], [1], [2::int]]"
    by blast
  with analizar_tres_1 short skip show ?thesis
    by (simp add: dates_ej_tres_dias fechas_ej_tres_dias ventanas_tres_1)
qed

lemma length_pct_change_from:
  "0 < p \<Longrightarrow> \<forall>x \<in> set xs. 0 < x \<Longrightarrow> length (dropna (pct_change_from p xs)) = length xs"
  by (induction xs arbitrary: p) simp_all

lemma length_dropna_pct_change:
  "\<forall>x \<in> set xs. 0 < x \<Longrightarrow> length (dropna (pct_change xs)) = length xs - 1"
  by (cases xs) (simp_all add: length_pct_change_from)

lemma length_retornos_de:
  "length (retornos_de data dates v) = length (precios_de data dates v) - 1"
  unfolding retornos_de_def
  by (rule length_dropna_pct_change) (simp add: precios_de_pos)

lemma pd_std_single: "length xs \<le> 1 \<Longrightarrow> pd_std xs = None"
  by (simp add: pd_std_def)

lemma ventanas_un_dia_1: "ventanas [0] 1 = [[0]]"
  by (simp add: ventanas_def py_range_def py_slice_def)

lemma precios_un_dia: "precios_de (set_date ej_un_dia) [0, 0] [0] = [10, 11]"
  by (simp add: precios_de_def subset_Close_def df_Close_def set_date_def ej_un_dia_def
      boolean_index_def isin_def gt_series_def)

lemma paso_un_dia:
  "paso lib_ej (set_date ej_un_dia) [0, 0] [0] =
     Inr (Some \<lparr>Inicio_Ventana = 0, Fin_Ventana = 0, ADF_p_value = Some (1 / 100),
                KPSS_p_value = None, Hurst_Exponent = None, Volatilidad = None\<rparr>)"
  by (simp add: paso_def precios_un_dia pruebas_estacionariedad_def lib_ej_def
      calcular_hurst_def py_first_def py_last_def pd_std_def)

lemma analizar_un_dia_1:
  "snd (analizar_estacionariedad lib_ej ej_un_dia 1) =
     Inr [\<lparr>Inicio_Ventana = 0, Fin_Ventana = 0, ADF_p_value = Some (1 / 100),
           KPSS_p_value = None, Hurst_Exponent = None, Volatilidad = None\<rparr>]"
  by (simp add: analizar_unfold dates_ej_un_dia fechas_ej_un_dia ventanas_un_dia_1
      paso_un_dia pd_DataFrame_def)

lemma paso_un_dia_estricto:
  "paso lib_adf_estricto (set_date ej_un_dia) [0, 0] [0] =
     Inl (ValueError ''Invalid input, x is constant'')"
  by (simp add: paso_def precios_un_dia pruebas_estacionariedad_def lib_adf_estricto_def
      lib_ej_def)

text \<open>
  Claim C9, as stated, says that a window with exactly two valid prices gets a row whose
  volatility is null and that the run does not crash. The call of \<open>adfuller\<close> on line
  51 comes before the standard deviation and is not guarded: with a unit-root test that
  rejects the one-element return series, the window has two valid prices and the run ends
  with that test's exception, without a row.
\<close>

theorem C9_volatilidad_counterexample:
  "[0] \<in> set (ventanas (fechas_unicas (map date_of (df_index ej_un_dia))) 1) \<and>
   length (precios_de (set_date ej_un_dia) (map date_of (df_index ej_un_dia)) [0]) = 2 \<and>
   length (retornos_de (set_date ej_un_dia) (map date_of (df_index ej_un_dia)) [0]) = 1 \<and>
   snd (analizar_estacionariedad lib_adf_estricto ej_un_dia 1) =
     Inl (ValueError ''Invalid input, x is constant'')"
  by (simp add: analizar_unfold dates_ej_un_dia fechas_ej_un_dia ventanas_un_dia_1
      paso_un_dia_estricto precios_un_dia length_retornos_de)

text \<open>
  Claim C9, amended. Every row of a returned table records pandas' sample standard
  deviation (\<open>ddof = 1\<close>, the same for all windows) of the return series of its window,
  the windows with at least two valid prices taken in order. For a row whose window has
  exactly two valid prices the return series has one element and the recorded value is
  null; computing it raises nothing. Whether such a window yields a row at all depends
  on the test battery returning.
\<close>

theorem C9_volatilidad:
  assumes "snd (analizar_estacionariedad L data w) = Inr t"
  shows "let data' = set_date data;
             dates = map date_of (df_index data);
             vs = filter (\<lambda>v. 2 \<le> length (precios_de data' dates v))
                    (ventanas (fechas_unicas dates) w) in
         length t = length vs \<and>
         (\<forall>i < length t.
            Volatilidad (t ! i) = pd_std (retornos_de data' dates (vs ! i)) \<and>
            (length (precios_de data' dates (vs ! i)) = 2 \<longrightarrow>
               length (retornos_de data' dates (vs ! i)) = 1 \<and> Volatilidad (t ! i) = None))"
proof -
  define data' where "data' = set_date data"
  define dates where "dates = map date_of (df_index data)"
  define vs where "vs = filter (\<lambda>v. 2 \<le> length (precios_de data' dates v))
                    (ventanas (fechas_unicas dates) w)"
  have m: "map Volatilidad t = map (\<lambda>v. pd_std (retornos_de data' dates v)) vs"
    using analizar_rows [OF assms] by (simp add: data'_def dates_def vs_def)
  from arg_cong [OF m, of length] have len: "length t = length vs" by simp
  have vol: "Volatilidad (t ! i) = pd_std (retornos_de data' dates (vs ! i))"
    if "i < length t" for i
  proof -
    from that have "Volatilidad (t ! i) = map Volatilidad t ! i" by simp
    also have "\<dots> = map (\<lambda>v. pd_std (retornos_de data' dates v)) vs ! i"
      by (simp only: m)
    also from that len have "\<dots> = pd_std (retornos_de data' dates (vs ! i))" by simp
    finally show ?thesis .
  qed
  have two: "length (retornos_de data' dates (vs ! i)) = 1 \<and> Volatilidad (t ! i) = None"
    if "i < length t" and "length (precios_de data' dates (vs ! i)) = 2" for i
  proof -
    from that(2) have one: "length (retornos_de data' dates (vs ! i)) = 1"
      by (simp add: length_retornos_de)
    then have "pd_std (retornos_de data' dates (vs ! i)) = None"
      by (simp add: pd_std_single)
    with vol [OF that(1)] one show ?thesis by simp
  qed
  show ?thesis
    unfolding Let_def data'_def [symmetric] dates_def [symmetric] vs_def [symmetric]
    using len vol two by blast
qed

theorem C9_volatilidad_witness:
  "snd (analizar_estacionariedad lib_ej ej_un_dia 1) =
     Inr [\<lparr>Inicio_Ventana = 0, Fin_Ventana = 0, ADF_p_value = Some (1 / 100),
           KPSS_p_value = None, Hurst_Exponent = None, Volatilidad = None\<rparr>] \<and>
   length (precios_de (set_date ej_un_dia) (map date_of (df_index ej_un_dia)) [0]) = 2 \<and>
   length (retornos_de (set_date ej_un_dia) (map date_of (df_index ej_un_dia)) [0]) = 1 \<and>
   pd_std (retornos_de (set_date ej_un_dia) (map date_of (df_index ej_un_dia)) [0]) = None"
proof -
  note c9 = C9_volatilidad [OF analizar_un_dia_1, unfolded Let_def dates_ej_un_dia
      fechas_ej_un_dia ventanas_un_dia_1]
  have vs: "filter (\<lambda>v. 2 \<le> length (precios_de (set_date ej_un_dia) [0, 0] v)) [[0]] = [[0]]"
    by (simp add: precios_un_dia)
  from c9 have
    "Volatilidad ([\<lparr>Inicio_Ventana = 0, Fin_Ventana = 0, ADF_p_value = Some (1 / 100),
           KPSS_p_value = None, Hurst_Exponent = None, Volatilidad = None\<rparr>] ! 0) =
       pd_std (retornos_de (set_date ej_un_dia) [0, 0] ([[0]] ! 0)) \<and>
     (length (precios_de (set_date ej_un_dia) [0, 0] ([[0]] ! 0)) = 2 \<longrightarrow>
        length (retornos_de (set_date ej_un_dia) [0, 0] ([[0]] ! 0)) = 1)"
    unfolding vs by simp
  then show ?thesis
    using analizar_un_dia_1 by (simp add: dates_ej_un_dia precios_un_dia)
qed

lemma precios_nonempty_ventana:
  assumes "2 \<le> length (precios_de data dates v)"
  shows "v \<noteq> []"
proof
  assume "v = []"
  with assms show False by (simp add: precios_de_Nil)
qed

lemma py_first_hd: "v \<noteq> [] \<Longrightarrow> py_first v = Inr (hd v)"
  by (cases v) (simp_all add: py_first_def)

lemma py_last_last: "v \<noteq> [] \<Longrightarrow> py_last v = Inr (last v)"
  by (simp add: py_last_def)

lemma paso_row:
  assumes "2 \<le> length (precios_de data dates v)"
    and "pruebas_estacionariedad L (retornos_de data dates v) = Inr est"
    and "calcular_hurst L (retornos_de data dates v) = Inr h"
  shows "paso L data dates v =
           Inr (Some \<lparr>Inicio_Ventana = hd v, Fin_Ventana = last v,
                      ADF_p_value = p_value (ADF est), KPSS_p_value = p_value (KPSS est),
                      Hurst_Exponent = h,
                      Volatilidad = pd_std (retornos_de data dates v)\<rparr>)"
proof -
  from assms(1) have "v \<noteq> []" by (rule precios_nonempty_ventana)
  then have "py_first v = Inr (hd v)" "py_last v = Inr (last v)"
    by (simp_all add: py_first_hd py_last_last)
  with assms show ?thesis
    by (simp add: paso_def Let_def retornos_de_def)
qed

lemma precios_constante: "precios_de (set_date ej_constante) [0, 0, 0] [0] = [10, 20, 40]"
  by (simp add: precios_de_def subset_Close_def df_Close_def set_date_def ej_constante_def
      boolean_index_def isin_def gt_series_def)

lemma retornos_constante: "retornos_de (set_date ej_constante) [0, 0, 0] [0] = [1, 1]"
  by (simp add: retornos_de_def precios_constante)

lemma pruebas_adfuller_raises:
  "adfuller L data = Inl e \<Longrightarrow> pruebas_estacionariedad L data = Inl e"
  by (simp add: pruebas_estacionariedad_def)

lemma pruebas_kpss_other_exception:
  "adfuller L data = Inr a \<Longrightarrow> kpss L data ''c'' ''auto'' = Inl e \<Longrightarrow>
     (\<forall>msg. e \<noteq> ValueError msg) \<Longrightarrow> pruebas_estacionariedad L data = Inl e"
  by (cases e) (simp_all add: pruebas_estacionariedad_def)

text \<open>
  Claim C7. \<open>calcular_hurst\<close> returns null for every series of fewer than 100
  observations, without calling the estimator. From 100 observations on (100 included)
  it calls the estimator in \<open>price\<close> mode with \<open>simplified = True\<close>: it returns null
  when the estimator raises \<open>FloatingPointError\<close>, and the estimator's exponent when the
  estimator returns.
\<close>

theorem C7_calcular_hurst:
  "(length data < 100 \<longrightarrow> calcular_hurst L data = Inr None) \<and>
   (100 \<le> length data \<longrightarrow>
      (\<forall>msg. compute_Hc L data ''price'' True = Inl (FloatingPointError msg) \<longrightarrow>
             calcular_hurst L data = Inr None) \<and>
      (\<forall>H c vals. compute_Hc L data ''price'' True = Inr (H, c, vals) \<longrightarrow>
             calcular_hurst L data = Inr H))"
  by (simp add: calcular_hurst_def)

theorem C7_calcular_hurst_witness:
  "length (replicate 99 (1::real)) < 100 \<and>
   calcular_hurst lib_ej (replicate 99 1) = Inr None \<and>
   100 \<le> length (replicate 100 (0::real)) \<and>
   compute_Hc lib_ej (replicate 100 0) ''price'' True =
     Inl (FloatingPointError ''divide by zero encountered in log10'') \<and>
   calcular_hurst lib_ej (replicate 100 0) = Inr None \<and>
   compute_Hc lib_ej (replicate 100 1) ''price'' True = Inr (Some (1 / 2), 1, []) \<and>
   calcular_hurst lib_ej (replicate 100 1) = Inr (Some (1 / 2))"
proof -
  have z: "compute_Hc lib_ej (replicate 100 0) ''price'' True =
     Inl (FloatingPointError ''divide by zero encountered in log10'')"
    by (simp add: lib_ej_def)
  have u: "compute_Hc lib_ej (replicate 100 1) ''price'' True = Inr (Some (1 / 2), 1, [])"
    by (simp add: lib_ej_def)
  have "calcular_hurst lib_ej (replicate 99 1) = Inr None"
    using C7_calcular_hurst [of "replicate 99 1" lib_ej] by simp
  moreover have "calcular_hurst lib_ej (replicate 100 0) = Inr None"
    using C7_calcular_hurst [of "replicate 100 0" lib_ej] z by simp
  moreover have "calcular_hurst lib_ej (replicate 100 1) = Inr (Some (1 / 2))"
    using C7_calcular_hurst [of "replicate 100 1" lib_ej] u by simp
  ultimately show ?thesis using z u by simp
qed

lemma length_filter_id_map: "length (filter id (map P xs)) = length (filter P xs)"
  by (induction xs) simp_all

lemma and_series_map: "and_series (map P xs) (map Q xs) = map (\<lambda>x. P x \<and> Q x) xs"
  by (induction xs) (simp_all add: and_series_def)

lemma lt_series_map:
  "lt_series (map f xs) c = map (\<lambda>r. case f r of None \<Rightarrow> False | Some v \<Rightarrow> v < c) xs"
  by (simp add: lt_series_def)

lemma gt_series_map:
  "gt_series (map f xs) c = map (\<lambda>r. case f r of None \<Rightarrow> False | Some v \<Rightarrow> c < v) xs"
  by (simp add: gt_series_def)

lemma mean_bool_map:
  "xs \<noteq> [] \<Longrightarrow>
     times100 (mean_bool (map P xs)) = Some (real (length (filter P xs)) / real (length xs) * 100)"
  by (simp add: mean_bool_def times100_def length_filter_id_map)

lemma getitem_ADF: "df \<noteq> [] \<Longrightarrow> getitem df ''ADF p-value'' = Inr (Flotantes (map ADF_p_value df))"
  by (simp add: getitem_def columnas_def)

lemma getitem_KPSS: "df \<noteq> [] \<Longrightarrow> getitem df ''KPSS p-value'' = Inr (Flotantes (map KPSS_p_value df))"
  by (simp add: getitem_def columnas_def)

lemma getitem_Hurst:
  "df \<noteq> [] \<Longrightarrow> getitem df ''Hurst Exponent'' = Inr (Flotantes (map Hurst_Exponent df))"
  by (simp add: getitem_def columnas_def)

lemma getitem_empty: "getitem [] c = Inl (KeyError c)"
  by (simp add: getitem_def columnas_def)

lemma luego_Inr: "luego (Inr x) f = f x"
  by (simp add: luego_def)

lemma luego_Inl: "luego (Inl e) f = Inl e"
  by (simp add: luego_def)

lemma hurst_band:
  "(\<lambda>r. (case Hurst_Exponent r of None \<Rightarrow> False | Some v \<Rightarrow> c < v) \<and>
        (case Hurst_Exponent r of None \<Rightarrow> False | Some v \<Rightarrow> v < d)) =
   (\<lambda>r. case Hurst_Exponent r of None \<Rightarrow> False | Some h \<Rightarrow> c < h \<and> h < d)"
  by (rule ext) (simp split: option.splits)

text \<open>
  Claim C3. For a non-empty result table each of the three percentages of the report is
  the number of rows that satisfy the threshold predicate (unit-root p-value below 0.05,
  level-stationarity p-value above 0.05, exponent strictly between 0.4 and 0.6), divided
  by the number of all rows, times 100. A row whose value is null does not satisfy the
  predicate and is counted in the denominator. Ten rows of which six have a unit-root
  p-value below 0.05 give 60.
\<close>

theorem C3_summary_percentages:
  assumes "df \<noteq> []"
  shows "generar_reporte df =
     Inr (Resumen
       (Some (real (length (filter
          (\<lambda>r. case ADF_p_value r of None \<Rightarrow> False | Some p \<Rightarrow> p < 0.05) df))
          / real (length df) * 100))
       (Some (real (length (filter
          (\<lambda>r. case KPSS_p_value r of None \<Rightarrow> False | Some p \<Rightarrow> 0.05 < p) df))
          / real (length df) * 100))
       (Some (real (length (filter
          (\<lambda>r. case Hurst_Exponent r of None \<Rightarrow> False | Some h \<Rightarrow> 0.4 < h \<and> h < 0.6) df))
          / real (length df) * 100)))"
proof -
  note cols = getitem_ADF [OF assms] getitem_KPSS [OF assms] getitem_Hurst [OF assms]
  note means = mean_bool_map [OF assms]
  from assms have ne: "(df = []) = False" by simp
  show ?thesis
    unfolding generar_reporte_def tabla_empty_def ne if_False cols luego_Inr col_lt.simps
      col_gt.simps lt_series_map gt_series_map and_series_map means hurst_band Let_def
    by (rule refl)
qed

theorem C3_summary_percentages_witness:
  "ej_tabla \<noteq> [] \<and> length ej_tabla = 10 \<and>
   length (filter (\<lambda>r. case ADF_p_value r of None \<Rightarrow> False | Some p \<Rightarrow> p < 0.05) ej_tabla) = 6 \<and>
   length (filter (\<lambda>r. case KPSS_p_value r of None \<Rightarrow> True | Some p \<Rightarrow> False) ej_tabla) = 4 \<and>
   generar_reporte ej_tabla = Inr (Resumen (Some 60) (Some 60) (Some 60))"
proof -
  have ne: "ej_tabla \<noteq> []" by (simp add: ej_tabla_def)
  have "generar_reporte ej_tabla = Inr (Resumen (Some 60) (Some 60) (Some 60))"
    using C3_summary_percentages [OF ne]
    by (simp add: ej_tabla_def fila_baja_def fila_alta_def)
  then show ?thesis
    by (simp add: ej_tabla_def fila_baja_def fila_alta_def)
qed

text \<open>
  Claim C5. On an empty result table \<open>generar_reporte\<close> returns the fixed message
  (\<open>msg_insuficiente\<close>, the text of line 66) from its first branch:
  no mean is taken, nothing is divided and nothing is raised.
\<close>

theorem C5_empty_table_message:
  assumes "tabla_empty df"
  shows "generar_reporte df = Inr (Mensaje msg_insuficiente)"
  using assms by (simp add: generar_reporte_def)

theorem C5_empty_table_message_witness:
  "tabla_empty (pd_DataFrame []) \<and>
   generar_reporte (pd_DataFrame []) = Inr (Mensaje msg_insuficiente)"
proof -
  have e: "tabla_empty (pd_DataFrame [])"
    by (simp add: tabla_empty_def pd_DataFrame_def)
  from e C5_empty_table_message [OF e] show ?thesis by simp
qed

lemma graficar_empty: "graficar [] = Inl (KeyError ''Inicio Ventana'')"
  by (simp add: graficar_def getitem_empty luego_Inl)

text \<open>
  Claim C10. There are inputs for which the fetched table is not empty and
  \<open>analizar_estacionariedad\<close> returns the empty table; one calendar date with window
  size 2 is one. On every such input the script writes the empty table and the
  insufficient-information report, then calls \<open>graficar\<close> on that table, which has no
  column: the first column access raises \<open>KeyError\<close> for \<open>Inicio Ventana\<close> and the run
  ends there.
\<close>

theorem C10_graficar_on_empty_table:
  assumes "\<not> df_empty datos"
    and "snd (analizar_estacionariedad L datos 2) = Inr (pd_DataFrame [])"
  shows "generar_reporte (pd_DataFrame []) = Inr (Mensaje msg_insuficiente) \<and>
         graficar (pd_DataFrame []) = Inl (KeyError ''Inicio Ventana'') \<and>
         script L datos =
           (encabezado @
              [St_success ''Datos descargados exitosamente.'',
               St_write_datos (df_head datos),
               St_write ''### Analizando datos...'',
               St_write_tabla (pd_DataFrame []),
               St_write_reporte (Mensaje msg_insuficiente),
               St_write (''### Visualizaci'' @ [CHR 0xC3, CHR 0xB3] @ ''n de resultados'')],
            Some (KeyError ''Inicio Ventana''))"
proof -
  have r: "generar_reporte (pd_DataFrame []) = Inr (Mensaje msg_insuficiente)"
    by (simp add: generar_reporte_def tabla_empty_def pd_DataFrame_def)
  have g: "graficar (pd_DataFrame []) = Inl (KeyError ''Inicio Ventana'')"
    by (simp add: pd_DataFrame_def graficar_empty)
  from assms r g show ?thesis
    by (simp add: script_def Let_def)
qed

theorem C10_graficar_on_empty_table_witness:
  "\<not> df_empty ej_un_dia \<and>
   card (set (map date_of (df_index ej_un_dia))) = 1 \<and>
   snd (analizar_estacionariedad lib_ej ej_un_dia 2) = Inr (pd_DataFrame []) \<and>
   snd (script lib_ej ej_un_dia) = Some (KeyError ''Inicio Ventana'') \<and>
   last (fst (script lib_ej ej_un_dia)) =
     St_write (''### Visualizaci'' @ [CHR 0xC3, CHR 0xB3] @ ''n de resultados'') \<and>
   St_write_reporte (Mensaje msg_insuficiente) \<in> set (fst (script lib_ej ej_un_dia))"
proof -
  have ne: "\<not> df_empty ej_un_dia"
    by (simp add: df_empty_def ej_un_dia_def)
  have an: "snd (analizar_estacionariedad lib_ej ej_un_dia 2) = Inr (pd_DataFrame [])"
    by (simp add: analizar_unfold dates_ej_un_dia fechas_ej_un_dia ventanas_short)
  from C10_graficar_on_empty_table [OF ne an] ne an show ?thesis
    by (simp add: dates_ej_un_dia)
qed

text \<open>
  Claim C4, as stated, says that a run leaves its input table unchanged. Line 42 assigns
  the column \<open>date\<close> on the table the caller passed: after the call the caller's table
  has a column it did not have.
\<close>

theorem C4_input_unchanged_counterexample:
  "date_col ej_un_dia = None \<and>
   date_col (fst (analizar_estacionariedad lib_ej ej_un_dia 2)) = Some [0, 0] \<and>
   fst (analizar_estacionariedad lib_ej ej_un_dia 2) \<noteq> ej_un_dia"
proof -
  have a: "date_col ej_un_dia = None" by (simp add: ej_un_dia_def)
  have b: "date_col (fst (analizar_estacionariedad lib_ej ej_un_dia 2)) = Some [0, 0]"
    by (simp add: analizar_unfold set_date_def dates_ej_un_dia)
  from a b have "fst (analizar_estacionariedad lib_ej ej_un_dia 2) \<noteq> ej_un_dia"
    by auto
  with a b show ?thesis by simp
qed

lemma snd_bucle_visitas:
  "snd (bucle_visitas L data dates vs acc) = bucle L data dates vs acc"
proof (induction vs arbitrary: acc)
  case Nil
  show ?case by simp
next
  case (Cons v vs)
  show ?case
  proof (cases "paso L data dates v")
    case (Inl e)
    then show ?thesis by simp
  next
    case (Inr opt)
    then show ?thesis
      by (cases opt) (simp_all add: case_prod_beta Cons.IH)
  qed
qed

lemma fst_bucle_visitas:
  "fst (bucle_visitas L data dates vs acc) =
     takeWhile (\<lambda>v. \<not> isl (paso L data dates v)) vs
       @ take 1 (dropWhile (\<lambda>v. \<not> isl (paso L data dates v)) vs)"
proof (induction vs arbitrary: acc)
  case Nil
  show ?case by simp
next
  case (Cons v vs)
  show ?case
  proof (cases "paso L data dates v")
    case (Inl e)
    then show ?thesis by simp
  next
    case (Inr opt)
    then show ?thesis
      by (cases opt) (simp_all add: case_prod_beta Cons.IH)
  qed
qed

lemma list_case_Nil_cong:
  "a = a' \<Longrightarrow> (case xs of [] \<Rightarrow> a | v # r \<Rightarrow> b v) = (case xs of [] \<Rightarrow> a' | v # r \<Rightarrow> b v)"
  by (cases xs) simp_all

lemma map_sum_list_case:
  "map_sum f g (case xs of [] \<Rightarrow> Inr a | v # r \<Rightarrow> Inl (b v)) =
     (case xs of [] \<Rightarrow> Inr (g a) | v # r \<Rightarrow> Inl (f (b v)))"
  by (cases xs) simp_all

lemma bucle_outcome:
  "bucle L data dates vs acc =
     (case dropWhile (\<lambda>v. \<not> isl (paso L data dates v)) vs of
        [] \<Rightarrow> Inr (acc @ List.map_filter
                     (\<lambda>v. case paso L data dates v of Inl e \<Rightarrow> None | Inr x \<Rightarrow> x) vs)
      | v # _ \<Rightarrow> Inl (projl (paso L data dates v)))"
proof (induction vs arbitrary: acc)
  case Nil
  show ?case by (simp add: map_filter_simps)
next
  case (Cons v vs)
  let ?P = "\<lambda>v. \<not> isl (paso L data dates v)"
  show ?case
  proof (cases "paso L data dates v")
    case (Inl e)
    then show ?thesis by simp
  next
    case (Inr opt)
    then have dw: "dropWhile ?P (v # vs) = dropWhile ?P vs" by simp
    show ?thesis
    proof (cases opt)
      case None
      with Inr have "bucle L data dates (v # vs) acc = bucle L data dates vs acc" by simp
      also note Cons.IH [of acc]
      finally have "bucle L data dates (v # vs) acc =
          (case dropWhile ?P vs of
             [] \<Rightarrow> Inr (acc @ List.map_filter
                     (\<lambda>v. case paso L data dates v of Inl e \<Rightarrow> None | Inr x \<Rightarrow> x) vs)
           | v # _ \<Rightarrow> Inl (projl (paso L data dates v)))" .
      also have "\<dots> =
          (case dropWhile ?P vs of
             [] \<Rightarrow> Inr (acc @ List.map_filter
                     (\<lambda>v. case paso L data dates v of Inl e \<Rightarrow> None | Inr x \<Rightarrow> x) (v # vs))
           | v # _ \<Rightarrow> Inl (projl (paso L data dates v)))"
        using Inr None by (intro list_case_Nil_cong) (simp add: map_filter_simps)
      finally show ?thesis unfolding dw .
    next
      case (Some r)
      with Inr have "bucle L data dates (v # vs) acc = bucle L data dates vs (acc @ [r])"
        by simp
      also note Cons.IH [of "acc @ [r]"]
      finally have "bucle L data dates (v # vs) acc =
          (case dropWhile ?P vs of
             [] \<Rightarrow> Inr ((acc @ [r]) @ List.map_filter
                     (\<lambda>v. case paso L data dates v of Inl e \<Rightarrow> None | Inr x \<Rightarrow> x) vs)
           | v # _ \<Rightarrow> Inl (projl (paso L data dates v)))" .
      also have "\<dots> =
          (case dropWhile ?P vs of
             [] \<Rightarrow> Inr (acc @ List.map_filter
                     (\<lambda>v. case paso L data dates v of Inl e \<Rightarrow> None | Inr x \<Rightarrow> x) (v # vs))
           | v # _ \<Rightarrow> Inl (projl (paso L data dates v)))"
        using Inr Some by (intro list_case_Nil_cong) (simp add: map_filter_simps)
      finally show ?thesis unfolding dw .
    qed
  qed
qed

lemma visitadas_all:
  assumes "bucle L data dates vs acc = Inr t"
  shows "fst (bucle_visitas L data dates vs acc) = vs"
proof -
  let ?P = "\<lambda>v. \<not> isl (paso L data dates v)"
  from assms have dw: "dropWhile ?P vs = []"
    unfolding bucle_outcome by (cases "dropWhile ?P vs") simp_all
  then have "\<forall>v \<in> set vs. ?P v" by (simp only: dropWhile_eq_Nil_conv)
  then have tw: "takeWhile ?P vs = vs" by (simp only: takeWhile_eq_all_conv)
  show ?thesis
    unfolding fst_bucle_visitas dw tw by simp
qed

lemma dates_ej_dos_dias: "map date_of (df_index ej_dos_dias) = [0, 0, 1, 1, 1]"
  by (simp add: ej_dos_dias_def df_index_def date_of_def)

lemma fechas_ej_dos_dias: "fechas_unicas [0, 0, 1, 1, 1] = [0, 1]"
  by (simp add: fechas_unicas_def unique_def)

lemma ventanas_dos_1: "ventanas [0, 1] 1 = [[0], [1]]"
  by (simp add: ventanas_def py_range_def py_slice_def upt_rec)

lemma precios_dos_0: "precios_de (set_date ej_dos_dias) [0, 0, 1, 1, 1] [0] = [10, 11]"
  by (simp add: precios_de_def subset_Close_def df_Close_def set_date_def ej_dos_dias_def
      boolean_index_def isin_def gt_series_def)

lemma paso_dos_0_estricto:
  "paso lib_adf_estricto (set_date ej_dos_dias) [0, 0, 1, 1, 1] [0] =
     Inl (ValueError ''Invalid input, x is constant'')"
  by (simp add: paso_def precios_dos_0 pruebas_estacionariedad_def lib_adf_estricto_def
      lib_ej_def)

text \<open>
  Claim C1, as stated, says that the function iterates over exactly \<open>max 0 (d - w + 1)\<close>
  windows. An exception raised in a window is not caught by the loop and ends it: with
  two calendar dates, window size 1 and a unit-root test that rejects the one-element
  return series of the first date, there are two windows and the loop enters one.
\<close>

theorem C1_windows_visited_counterexample:
  "(1::int) \<le> 1 \<and>
   card (set (map date_of (df_index ej_dos_dias))) = 2 \<and>
   ventanas (fechas_unicas (map date_of (df_index ej_dos_dias))) 1 = [[0], [1]] \<and>
   fst (bucle_visitas lib_adf_estricto (set_date ej_dos_dias)
          (map date_of (df_index ej_dos_dias))
          (ventanas (fechas_unicas (map date_of (df_index ej_dos_dias))) 1) []) = [[0]] \<and>
   snd (analizar_estacionariedad lib_adf_estricto ej_dos_dias 1) =
     Inl (ValueError ''Invalid input, x is constant'')"
  by (simp add: analizar_unfold dates_ej_dos_dias fechas_ej_dos_dias ventanas_dos_1
      paso_dos_0_estricto)

text \<open>
  Claim C1, amended. For a window size \<open>w \<ge> 1\<close> and a table whose index spans \<open>d\<close>
  distinct calendar dates, the loop of \<open>analizar_estacionariedad\<close> ranges over the list
  \<open>ventanas\<close> of the sorted distinct dates, which has exactly \<open>max 0 (d - w + 1)\<close>
  entries, entry \<open>i\<close> being the \<open>w\<close> consecutive distinct dates from position \<open>i\<close>
  (stride one). It enters them in order, up to and including the first window whose
  evaluation raises; that exception is the outcome of the run. When no window raises,
  every window is entered and the table holds the rows of the windows that were not
  skipped, in order; so whenever a table is returned, exactly \<open>max 0 (d - w + 1)\<close>
  windows were entered. With fewer than \<open>w\<close> distinct dates there is no window and the
  function returns the empty table without raising.
\<close>

theorem C1_windows_visited:
  assumes "1 \<le> w"
  shows "let data' = set_date data;
             dates = map date_of (df_index data);
             fs = fechas_unicas dates;
             d = int (card (set dates));
             vs = ventanas fs w;
             sigue = (\<lambda>v. \<not> isl (paso L data' dates v));
             visitadas = fst (bucle_visitas L data' dates vs []) in
         int (length fs) = d \<and> distinct fs \<and> sorted fs \<and> set fs = set dates \<and>
         int (length vs) = max 0 (d - w + 1) \<and>
         (\<forall>i < length vs. vs ! i = take (nat w) (drop i fs) \<and> length (vs ! i) = nat w) \<and>
         visitadas = takeWhile sigue vs @ take 1 (dropWhile sigue vs) \<and>
         snd (analizar_estacionariedad L data w) =
           map_sum (\<lambda>e. e) pd_DataFrame (snd (bucle_visitas L data' dates vs [])) \<and>
         snd (analizar_estacionariedad L data w) =
           (case dropWhile sigue vs of
              [] \<Rightarrow> Inr (pd_DataFrame (List.map_filter
                     (\<lambda>v. case paso L data' dates v of Inl e \<Rightarrow> None | Inr x \<Rightarrow> x) vs))
            | v # _ \<Rightarrow> Inl (projl (paso L data' dates v))) \<and>
         (\<forall>t. snd (analizar_estacionariedad L data w) = Inr t \<longrightarrow>
              visitadas = vs \<and> int (length visitadas) = max 0 (d - w + 1)) \<and>
         (d < w \<longrightarrow> analizar_estacionariedad L data w = (data', Inr (pd_DataFrame [])))"
proof -
  define data' where "data' = set_date data"
  define dates where "dates = map date_of (df_index data)"
  define fs where "fs = fechas_unicas dates"
  define vs where "vs = ventanas fs w"
  define sigue where "sigue = (\<lambda>v. \<not> isl (paso L data' dates v))"
  have len: "int (length fs) = int (card (set dates))"
    by (simp add: fs_def length_fechas_unicas)
  have cnt: "int (length vs) = max 0 (int (card (set dates)) - w + 1)"
    using len by (simp add: vs_def length_ventanas)
  have win: "\<forall>i < length vs. vs ! i = take (nat w) (drop i fs) \<and> length (vs ! i) = nat w"
    unfolding vs_def using assms nth_ventanas length_nth_ventanas by blast
  have vis: "fst (bucle_visitas L data' dates vs []) =
      takeWhile sigue vs @ take 1 (dropWhile sigue vs)"
    unfolding sigue_def by (rule fst_bucle_visitas)
  have run: "snd (analizar_estacionariedad L data w) =
      map_sum (\<lambda>e. e) pd_DataFrame (snd (bucle_visitas L data' dates vs []))"
    by (simp add: analizar_unfold snd_bucle_visitas data'_def dates_def fs_def vs_def)
  have out: "snd (analizar_estacionariedad L data w) =
      (case dropWhile sigue vs of
         [] \<Rightarrow> Inr (pd_DataFrame (List.map_filter
                (\<lambda>v. case paso L data' dates v of Inl e \<Rightarrow> None | Inr x \<Rightarrow> x) vs))
       | v # _ \<Rightarrow> Inl (projl (paso L data' dates v)))"
    unfolding run snd_bucle_visitas bucle_outcome sigue_def map_sum_list_case
    by (intro list_case_Nil_cong) simp
  have all: "fst (bucle_visitas L data' dates vs []) = vs \<and>
      int (length (fst (bucle_visitas L data' dates vs []))) =
        max 0 (int (card (set dates)) - w + 1)"
    if "snd (analizar_estacionariedad L data w) = Inr t" for t
  proof -
    from that have "bucle L data' dates vs [] = Inr t"
      using analizar_Inr [of L data w t] by (simp add: data'_def dates_def fs_def vs_def)
    then have "fst (bucle_visitas L data' dates vs []) = vs" by (rule visitadas_all)
    with cnt show ?thesis by simp
  qed
  have short: "analizar_estacionariedad L data w = (data', Inr (pd_DataFrame []))"
    if "int (card (set dates)) < w"
  proof -
    from that len have "ventanas fs w = []" by (simp add: ventanas_short)
    then show ?thesis by (simp add: analizar_unfold data'_def dates_def fs_def)
  qed
  have basics: "distinct fs" "sorted fs" "set fs = set dates"
    by (simp_all add: fs_def distinct_fechas_unicas sorted_fechas_unicas set_fechas_unicas)
  show ?thesis
    unfolding Let_def data'_def [symmetric] dates_def [symmetric] fs_def [symmetric]
      vs_def [symmetric] sigue_def [symmetric]
    using len cnt win vis run out all short basics by blast
qed

theorem C1_windows_visited_witness:
  "(1::int) \<le> 1 \<and>
   card (set (map date_of (df_index ej_tres_dias))) = 3 \<and>
   length (ventanas (fechas_unicas (map date_of (df_index ej_tres_dias))) 1) = 3 \<and>
   ventanas (fechas_unicas (map date_of (df_index ej_tres_dias))) 1 ! 1 = [1] \<and>
   snd (analizar_estacionariedad lib_ej ej_tres_dias 1) =
     Inr [\<lparr>Inicio_Ventana = 1, Fin_Ventana = 1, ADF_p_value = Some (1 / 100),
           KPSS_p_value = Some (1 / 10), Hurst_Exponent = None,
           Volatilidad = pd_std [1, - 1 / 2]\<rparr>] \<and>
   fst (bucle_visitas lib_ej (set_date ej_tres_dias) (map date_of (df_index ej_tres_dias))
          (ventanas (fechas_unicas (map date_of (df_index ej_tres_dias))) 1) []) =
     [[0], [1], [2]] \<and>
   card (set (map date_of (df_index ej_un_dia))) = 1 \<and>
   analizar_estacionariedad lib_ej ej_un_dia 2 = (set_date ej_un_dia, Inr (pd_DataFrame []))"
proof -
  have h1: "(1::int) \<le> 1" by simp
  have h2: "(1::int) \<le> 2" by simp
  note c1 = C1_windows_visited [OF h1, of ej_tres_dias lib_ej]
  have a: "length (ventanas [0, 1, 2] 1) = 3"
    using c1 by (simp add: Let_def dates_ej_tres_dias fechas_ej_tres_dias)
  have w: "\<forall>i < length (ventanas [0, 1, 2] 1).
      ventanas [0, 1, 2] 1 ! i = take (nat 1) (drop i [0, 1, 2])"
    using c1 by (simp add: Let_def dates_ej_tres_dias fechas_ej_tres_dias)
  from w [rule_format, of 1] a have b: "ventanas [0, 1, 2] 1 ! 1 = [1]"
    by simp
  have v: "fst (bucle_visitas lib_ej (set_date ej_tres_dias) [0, 1, 1, 1, 2, 2, 2]
                 (ventanas [0, 1, 2] 1) []) = ventanas [0, 1, 2] 1"
  proof -
    note every = c1 [unfolded Let_def, THEN conjunct2, THEN conjunct2, THEN conjunct2,
        THEN conjunct2, THEN conjunct2, THEN conjunct2, THEN conjunct2, THEN conjunct2,
        THEN conjunct2, THEN conjunct1]
    from every [rule_format, OF analizar_tres_1, THEN conjunct1] show ?thesis
      by (simp only: dates_ej_tres_dias fechas_ej_tres_dias)
  qed
  have c: "analizar_estacionariedad lib_ej ej_un_dia 2 = (set_date ej_un_dia, Inr (pd_DataFrame []))"
    using C1_windows_visited [OF h2, of ej_un_dia lib_ej]
    by (simp add: Let_def dates_ej_un_dia)
  from a b v c analizar_tres_1 show ?thesis
    by (simp add: dates_ej_tres_dias fechas_ej_tres_dias dates_ej_un_dia ventanas_tres_1)
qed

lemma dates_ej_constante: "map date_of (df_index ej_constante) = [0, 0, 0]"
  by (simp add: ej_constante_def df_index_def date_of_def)

lemma fechas_ej_constante: "fechas_unicas [0, 0, 0] = [0]"
  by (simp add: fechas_unicas_def unique_def)

lemma paso_pruebas_raises:
  assumes "2 \<le> length (precios_de data dates v)"
    and "pruebas_estacionariedad L (retornos_de data dates v) = Inl e"
  shows "paso L data dates v = Inl e"
  using assms by (simp add: paso_def Let_def retornos_de_def)

text \<open>
  Claim C6, as stated, speaks of any failure of the level-stationarity test. Line 25
  catches \<open>ValueError\<close> only: a test that fails with an exception of another class
  (here an \<open>OverflowError\<close>) ends \<open>pruebas_estacionariedad\<close>, the window and the run
  with that exception.
\<close>

theorem C6_kpss_failure_counterexample:
  "adfuller lib_kpss_desborda [1, 1] = Inr (Some (- 3), Some (1 / 100)) \<and>
   kpss lib_kpss_desborda [1, 1] ''c'' ''auto'' =
     Inl (OtherError ''OverflowError'' ''cannot convert float infinity to integer'') \<and>
   pruebas_estacionariedad lib_kpss_desborda [1, 1] =
     Inl (OtherError ''OverflowError'' ''cannot convert float infinity to integer'') \<and>
   retornos_de (set_date ej_constante) (map date_of (df_index ej_constante)) [0] = [1, 1] \<and>
   snd (analizar_estacionariedad lib_kpss_desborda ej_constante 1) =
     Inl (OtherError ''OverflowError'' ''cannot convert float infinity to integer'')"
proof -
  have a: "adfuller lib_kpss_desborda [1, 1] = Inr (Some (- 3), Some (1 / 100))"
    by (simp add: lib_kpss_desborda_def lib_ej_def)
  have k: "kpss lib_kpss_desborda [1, 1] ''c'' ''auto'' =
      Inl (OtherError ''OverflowError'' ''cannot convert float infinity to integer'')"
    by (simp add: lib_kpss_desborda_def lib_ej_def)
  have p: "pruebas_estacionariedad lib_kpss_desborda [1, 1] =
      Inl (OtherError ''OverflowError'' ''cannot convert float infinity to integer'')"
    by (simp add: pruebas_estacionariedad_def a k)
  have "paso lib_kpss_desborda (set_date ej_constante) [0, 0, 0] [0] =
      Inl (OtherError ''OverflowError'' ''cannot convert float infinity to integer'')"
    by (rule paso_pruebas_raises) (simp_all add: precios_constante retornos_constante p)
  then have "snd (analizar_estacionariedad lib_kpss_desborda ej_constante 1) =
      Inl (OtherError ''OverflowError'' ''cannot convert float infinity to integer'')"
    by (simp add: analizar_unfold dates_ej_constante fechas_ej_constante ventanas_un_dia_1)
  with a k p show ?thesis
    by (simp add: dates_ej_constante retornos_constante)
qed

text \<open>
  Claim C6, amended. When the unit-root test has returned and the level-stationarity
  test raises \<open>ValueError\<close>, \<open>pruebas_estacionariedad\<close> returns normally: the \<open>KPSS\<close>
  entry has a null p-value and the exception's text under \<open>error\<close>; the evaluation of
  the window goes on (when the exponent step returns, the row is appended with a null
  \<open>KPSS p-value\<close>) and the loop proceeds to the remaining windows. A failure of any other
  exception class is not caught: it is the outcome of \<open>pruebas_estacionariedad\<close>, of the
  window and of the loop.
\<close>

theorem C6_kpss_valueerror_recorded:
  assumes "adfuller L data = Inr a"
  shows "(\<forall>msg. kpss L data ''c'' ''auto'' = Inl (ValueError msg) \<longrightarrow>
            pruebas_estacionariedad L data =
              Inr \<lparr>ADF = Entrada (snd a) (fst a), KPSS = Fallo msg\<rparr> \<and>
            p_value (Fallo msg) = None \<and> error_de (Fallo msg) = Some msg \<and>
            (\<forall>df dates v vs acc h.
               2 \<le> length (precios_de df dates v) \<and> retornos_de df dates v = data \<and>
               calcular_hurst L data = Inr h \<longrightarrow>
               (\<exists>r. paso L df dates v = Inr (Some r) \<and>
                    KPSS_p_value r = None \<and> ADF_p_value r = snd a \<and>
                    bucle L df dates (v # vs) acc = bucle L df dates vs (acc @ [r])))) \<and>
         (\<forall>e. kpss L data ''c'' ''auto'' = Inl e \<and> (\<forall>msg. e \<noteq> ValueError msg) \<longrightarrow>
            pruebas_estacionariedad L data = Inl e \<and>
            (\<forall>df dates v vs acc.
               2 \<le> length (precios_de df dates v) \<and> retornos_de df dates v = data \<longrightarrow>
               paso L df dates v = Inl e \<and> bucle L df dates (v # vs) acc = Inl e))"
proof -
  have caught: "pruebas_estacionariedad L data =
        Inr \<lparr>ADF = Entrada (snd a) (fst a), KPSS = Fallo msg\<rparr> \<and>
      p_value (Fallo msg) = None \<and> error_de (Fallo msg) = Some msg \<and>
      (\<forall>df dates v vs acc h.
         2 \<le> length (precios_de df dates v) \<and> retornos_de df dates v = data \<and>
         calcular_hurst L data = Inr h \<longrightarrow>
         (\<exists>r. paso L df dates v = Inr (Some r) \<and>
              KPSS_p_value r = None \<and> ADF_p_value r = snd a \<and>
              bucle L df dates (v # vs) acc = bucle L df dates vs (acc @ [r])))"
    if k: "kpss L data ''c'' ''auto'' = Inl (ValueError msg)" for msg
  proof -
    from assms k have p: "pruebas_estacionariedad L data =
        Inr \<lparr>ADF = Entrada (snd a) (fst a), KPSS = Fallo msg\<rparr>"
      by (simp add: pruebas_estacionariedad_def)
    have loop: "\<exists>r. paso L df dates v = Inr (Some r) \<and>
                   KPSS_p_value r = None \<and> ADF_p_value r = snd a \<and>
                   bucle L df dates (v # vs) acc = bucle L df dates vs (acc @ [r])"
      if "2 \<le> length (precios_de df dates v)" and "retornos_de df dates v = data"
        and "calcular_hurst L data = Inr h" for df dates v vs acc h
    proof -
      from that p have "paso L df dates v =
          Inr (Some \<lparr>Inicio_Ventana = hd v, Fin_Ventana = last v,
                     ADF_p_value = p_value (ADF \<lparr>ADF = Entrada (snd a) (fst a), KPSS = Fallo msg\<rparr>),
                     KPSS_p_value = p_value (KPSS \<lparr>ADF = Entrada (snd a) (fst a), KPSS = Fallo msg\<rparr>),
                     Hurst_Exponent = h,
                     Volatilidad = pd_std (retornos_de df dates v)\<rparr>)"
        by (intro paso_row) simp_all
      then show ?thesis by simp
    qed
    from p loop show ?thesis by simp
  qed
  have other: "pruebas_estacionariedad L data = Inl e \<and>
      (\<forall>df dates v vs acc.
         2 \<le> length (precios_de df dates v) \<and> retornos_de df dates v = data \<longrightarrow>
         paso L df dates v = Inl e \<and> bucle L df dates (v # vs) acc = Inl e)"
    if k: "kpss L data ''c'' ''auto'' = Inl e" and ne: "\<forall>msg. e \<noteq> ValueError msg" for e
  proof -
    from assms k ne have p: "pruebas_estacionariedad L data = Inl e"
      by (rule pruebas_kpss_other_exception)
    have "paso L df dates v = Inl e \<and> bucle L df dates (v # vs) acc = Inl e"
      if "2 \<le> length (precios_de df dates v)" and "retornos_de df dates v = data"
      for df dates v vs acc
    proof -
      from that p have "paso L df dates v = Inl e"
        by (intro paso_pruebas_raises) simp_all
      then show ?thesis by simp
    qed
    with p show ?thesis by blast
  qed
  from caught other show ?thesis by blast
qed

theorem C6_kpss_valueerror_recorded_witness:
  "adfuller lib_ej [1, 1] = Inr (Some (- 3), Some (1 / 100)) \<and>
   kpss lib_ej [1, 1] ''c'' ''auto'' = Inl (ValueError ''cannot convert float NaN to integer'') \<and>
   pruebas_estacionariedad lib_ej [1, 1] =
     Inr \<lparr>ADF = Entrada (Some (1 / 100)) (Some (- 3)),
          KPSS = Fallo ''cannot convert float NaN to integer''\<rparr> \<and>
   (\<exists>r. paso lib_ej (set_date ej_constante) [0, 0, 0] [0] = Inr (Some r) \<and>
        KPSS_p_value r = None \<and>
        bucle lib_ej (set_date ej_constante) [0, 0, 0] [[0]] [] = Inr [r]) \<and>
   adfuller lib_kpss_desborda [1, 1] = Inr (Some (- 3), Some (1 / 100)) \<and>
   kpss lib_kpss_desborda [1, 1] ''c'' ''auto'' =
     Inl (OtherError ''OverflowError'' ''cannot convert float infinity to integer'') \<and>
   bucle lib_kpss_desborda (set_date ej_constante) [0, 0, 0] [[0]] [] =
     Inl (OtherError ''OverflowError'' ''cannot convert float infinity to integer'')"
proof -
  have a: "adfuller lib_ej [1, 1] = Inr (Some (- 3), Some (1 / 100))"
    by (simp add: lib_ej_def)
  have k: "kpss lib_ej [1, 1] ''c'' ''auto'' =
      Inl (ValueError ''cannot convert float NaN to integer'')"
    by (simp add: lib_ej_def)
  have h: "calcular_hurst lib_ej [1, 1] = Inr None"
    by (simp add: calcular_hurst_def)
  note c6 = C6_kpss_valueerror_recorded [OF a, THEN conjunct1, rule_format, OF k]
  from c6 have p: "pruebas_estacionariedad lib_ej [1, 1] =
     Inr \<lparr>ADF = Entrada (Some (1 / 100)) (Some (- 3)),
          KPSS = Fallo ''cannot convert float NaN to integer''\<rparr>"
    by simp
  have pre: "2 \<le> length (precios_de (set_date ej_constante) [0, 0, 0] [0]) \<and>
      retornos_de (set_date ej_constante) [0, 0, 0] [0] = [1, 1] \<and>
      calcular_hurst lib_ej [1, 1] = Inr None"
    by (simp add: precios_constante retornos_constante h)
  note l = c6 [THEN conjunct2, THEN conjunct2, THEN conjunct2]
  from l [rule_format, OF pre, of "[]" "[]"]
  have r: "\<exists>r. paso lib_ej (set_date ej_constante) [0, 0, 0] [0] = Inr (Some r) \<and>
        KPSS_p_value r = None \<and>
        bucle lib_ej (set_date ej_constante) [0, 0, 0] [[0]] [] = Inr [r]"
    by auto
  have a': "adfuller lib_kpss_desborda [1, 1] = Inr (Some (- 3), Some (1 / 100))"
    by (simp add: lib_kpss_desborda_def lib_ej_def)
  have k': "kpss lib_kpss_desborda [1, 1] ''c'' ''auto'' =
      Inl (OtherError ''OverflowError'' ''cannot convert float infinity to integer'') \<and>
      (\<forall>msg. OtherError ''OverflowError'' ''cannot convert float infinity to integer''
          \<noteq> ValueError msg)"
    by (simp add: lib_kpss_desborda_def lib_ej_def)
  note o = C6_kpss_valueerror_recorded [OF a', THEN conjunct2, rule_format, OF k',
      THEN conjunct2]
  have pre': "2 \<le> length (precios_de (set_date ej_constante) [0, 0, 0] [0]) \<and>
      retornos_de (set_date ej_constante) [0, 0, 0] [0] = [1, 1]"
    by (simp add: precios_constante retornos_constante)
  from o [rule_format, OF pre', of "[]" "[]"]
  have x: "bucle lib_kpss_desborda (set_date ej_constante) [0, 0, 0] [[0]] [] =
      Inl (OtherError ''OverflowError'' ''cannot convert float infinity to integer'')"
    by simp
  from a k p r a' k' x show ?thesis by blast
qed

text \<open>
  Claim C4, amended. \<open>analizar_estacionariedad\<close> changes the table it is given in one
  way: it writes the column \<open>date\<close>, the calendar dates of the index. The rows, the
  index and the \<open>Close\<close> column are left as they were, and the window loop reads the
  table as modified.
\<close>

theorem C4_only_date_column_written:
  "fst (analizar_estacionariedad L data w) =
     data\<lparr>date_col := Some (map date_of (df_index data))\<rparr> \<and>
   rows (fst (analizar_estacionariedad L data w)) = rows data \<and>
   df_index (fst (analizar_estacionariedad L data w)) = df_index data \<and>
   df_Close (fst (analizar_estacionariedad L data w)) = df_Close data \<and>
   get_date (fst (analizar_estacionariedad L data w)) = Inr (map date_of (df_index data)) \<and>
   snd (analizar_estacionariedad L data w) =
     map_sum (\<lambda>e. e) pd_DataFrame
       (bucle L (fst (analizar_estacionariedad L data w)) (map date_of (df_index data))
          (ventanas (fechas_unicas (map date_of (df_index data))) w) [])"
proof -
  have 1: "fst (analizar_estacionariedad L data w) = set_date data"
    by (simp add: analizar_unfold)
  show ?thesis
    unfolding 1
    by (simp add: analizar_unfold get_date_set_date)
       (simp add: set_date_def df_index_def df_Close_def)
qed

end
